theory Spec2Isabelle
  imports Main "HOL-Library.Word"
begin

section \<open>Python values used by \<open>failprint.capture\<close>\<close>

text \<open>
  A Python \<open>str\<close> is a sequence of Unicode code points, a \<open>bytes\<close> object a sequence of
  octets. String literals of the source are written through \<open>ustr\<close>.
\<close>

type_synonym pystr = "nat list"
type_synonym byte = "8 word"
type_synonym pybytes = "byte list"

definition ustr :: "string \<Rightarrow> pystr" where
  "ustr s = map of_char s"

text \<open>The exceptions that the modelled code and the library calls it makes can raise.\<close>

datatype error =
    ValueError
  | OSError
  | RuntimeError
  | UnicodeDecodeError
  | TypeError
  | AttributeError
  | UnsupportedOperation

section \<open>The enumeration \<open>Capture\<close>\<close>

datatype Capture = STDOUT | STDERR | BOTH | NONE

text \<open>The members in definition order, and the value of each member.\<close>

definition Capture_members :: "Capture list" where
  "Capture_members = [STDOUT, STDERR, BOTH, NONE]"

fun Capture_value :: "Capture \<Rightarrow> pystr" where
  "Capture_value STDOUT = ustr ''stdout''"
| "Capture_value STDERR = ustr ''stderr''"
| "Capture_value BOTH = ustr ''both''"
| "Capture_value NONE = ustr ''none''"

text \<open>
  \<open>cls(value)\<close>: the enumeration's lookup by value, which raises \<open>ValueError\<close> when no
  member has that value.
\<close>

definition Capture_call :: "pystr \<Rightarrow> error + Capture" where
  "Capture_call v =
     (case find (\<lambda>c. Capture_value c = v) Capture_members of
        Some c \<Rightarrow> Inr c
      | None \<Rightarrow> Inl ValueError)"

text \<open>The argument of \<open>Capture.cast\<close>: \<open>str | bool | Capture | None\<close>.\<close>

datatype cast_arg = PyNone | PyBool bool | PyCapture Capture | PyStr pystr

fun cast :: "cast_arg \<Rightarrow> error + Capture" where
  "cast PyNone = Inr BOTH"
| "cast (PyBool True) = Inr BOTH"
| "cast (PyBool False) = Inr NONE"
| "cast (PyCapture c) = Inr c"
| "cast (PyStr s) = Capture_call s"

section \<open>The process: descriptors, files and stream objects\<close>

text \<open>
  The capture code acts on the process through the \<open>os\<close>, \<open>sys\<close>, \<open>io\<close> and \<open>tempfile\<close>
  modules. The part of the process it can reach is a record: the descriptor table, the
  contents of the temporary files, the bytes that reached the destinations outside the
  process, the heap of stream objects, and the three names \<open>sys.stdin\<close>, \<open>sys.stdout\<close>,
  \<open>sys.stderr\<close>, which hold references into that heap.
\<close>

type_synonym fd = int
type_synonym ref = nat

text \<open>
  What an open descriptor refers to: a destination outside the process (a terminal, a
  pipe, a file) known by a number, the discard device, or a temporary file.
\<close>

datatype chan = Dest nat | Null_dev | Temp_file nat

text \<open>
  A stream object. \<open>fileno_of\<close> is \<open>None\<close> for an in-memory stream (\<open>StringIO\<close>), whose
  text is \<open>content\<close>; \<open>pending\<close> holds the bytes written to the object that have not been
  written to its descriptor yet; \<open>has_raw\<close> says whether \<open>f.buffer\<close> has an attribute
  \<open>raw\<close>, which is what \<open>_reopen_stdio\<close> inspects.
\<close>

record stream =
  fileno_of :: "fd option"
  closed :: bool
  closefd :: bool
  has_raw :: bool
  pending :: pybytes
  content :: pystr

record proc =
  WINDOWS :: bool
  fd_limit :: int
  fdtab :: "fd \<Rightarrow> chan option"
  files :: "nat \<Rightarrow> pybytes"
  next_file :: nat
  received :: "nat \<Rightarrow> pybytes"
  heap :: "ref \<Rightarrow> stream"
  next_ref :: ref
  sys_stdin :: ref
  sys_stdout :: ref
  sys_stderr :: ref
  device_encoding :: "(pybytes \<Rightarrow> pystr option) option"

subsection \<open>Operating-system calls\<close>

text \<open>
  A new descriptor is the lowest number not in use; when every number below the
  process's limit is in use the call fails (\<open>EMFILE\<close>).
\<close>

definition lowest_free :: "proc \<Rightarrow> fd option" where
  "lowest_free p = find (\<lambda>d. fdtab p d = None) [0..fd_limit p - 1]"

definition open_fds :: "proc \<Rightarrow> fd list" where
  "open_fds p = filter (\<lambda>d. fdtab p d \<noteq> None) [0..fd_limit p - 1]"

definition os_open :: "chan \<Rightarrow> proc \<Rightarrow> (error + fd) \<times> proc" where
  "os_open ch p =
     (case lowest_free p of
        None \<Rightarrow> (Inl OSError, p)
      | Some d \<Rightarrow> (Inr d, p\<lparr>fdtab := (fdtab p)(d \<mapsto> ch)\<rparr>))"

definition os_dup :: "fd \<Rightarrow> proc \<Rightarrow> (error + fd) \<times> proc" where
  "os_dup d p =
     (case fdtab p d of
        None \<Rightarrow> (Inl OSError, p)
      | Some ch \<Rightarrow> os_open ch p)"

definition os_dup2 :: "fd \<Rightarrow> fd \<Rightarrow> proc \<Rightarrow> error option \<times> proc" where
  "os_dup2 d d2 p =
     (case fdtab p d of
        None \<Rightarrow> (Some OSError, p)
      | Some ch \<Rightarrow>
          if d2 < 0 \<or> fd_limit p \<le> d2 then (Some OSError, p)
          else (None, p\<lparr>fdtab := (fdtab p)(d2 \<mapsto> ch)\<rparr>))"

definition os_close :: "fd \<Rightarrow> proc \<Rightarrow> error option \<times> proc" where
  "os_close d p =
     (case fdtab p d of
        None \<Rightarrow> (Some OSError, p)
      | Some ch \<Rightarrow> (None, p\<lparr>fdtab := (fdtab p)(d := None)\<rparr>))"

text \<open>
  Writing to a descriptor: the bytes reach the destination, are appended to the
  temporary file, or are discarded by the discard device.
\<close>

definition os_write :: "fd \<Rightarrow> pybytes \<Rightarrow> proc \<Rightarrow> error option \<times> proc" where
  "os_write d b p =
     (case fdtab p d of
        None \<Rightarrow> (Some OSError, p)
      | Some (Dest n) \<Rightarrow> (None, p\<lparr>received := (received p)(n := received p n @ b)\<rparr>)
      | Some Null_dev \<Rightarrow> (None, p)
      | Some (Temp_file k) \<Rightarrow> (None, p\<lparr>files := (files p)(k := files p k @ b)\<rparr>))"

subsection \<open>Stream objects\<close>

definition alloc_obj :: "stream \<Rightarrow> proc \<Rightarrow> ref \<times> proc" where
  "alloc_obj f p =
     (next_ref p, p\<lparr>heap := (heap p)(next_ref p := f), next_ref := Suc (next_ref p)\<rparr>)"

definition new_file_obj :: "fd \<Rightarrow> bool \<Rightarrow> stream" where
  "new_file_obj d raw =
     \<lparr>fileno_of = Some d, closed = False, closefd = True, has_raw = raw,
      pending = [], content = []\<rparr>"

text \<open>\<open>f.fileno()\<close>.\<close>

definition fileno :: "ref \<Rightarrow> proc \<Rightarrow> error + fd" where
  "fileno r p =
     (if closed (heap p r) then Inl ValueError
      else case fileno_of (heap p r) of
             None \<Rightarrow> Inl UnsupportedOperation
           | Some d \<Rightarrow> Inr d)"

text \<open>\<open>f.flush()\<close>: fails on a closed object, otherwise writes the pending bytes.\<close>

definition flush :: "ref \<Rightarrow> proc \<Rightarrow> error option \<times> proc" where
  "flush r p =
     (if closed (heap p r) then (Some ValueError, p)
      else case fileno_of (heap p r) of
             None \<Rightarrow> (None, p)
           | Some d \<Rightarrow>
               if pending (heap p r) = [] then (None, p)
               else (case os_write d (pending (heap p r)) p of
                       (Some e, p') \<Rightarrow> (Some e, p')
                     | (None, p') \<Rightarrow>
                         (None, p'\<lparr>heap := (heap p')(r := (heap p' r)\<lparr>pending := []\<rparr>)\<rparr>)))"

text \<open>
  \<open>f.close()\<close>: nothing on a closed object; otherwise the object is flushed and marked
  closed, and its descriptor is closed when the object owns it. An error of the flush
  is raised after the object has been closed.
\<close>

definition close :: "ref \<Rightarrow> proc \<Rightarrow> error option \<times> proc" where
  "close r p =
     (if closed (heap p r) then (None, p)
      else case flush r p of (e1, p1) \<Rightarrow>
        (let p2 = p1\<lparr>heap := (heap p1)(r := (heap p1 r)\<lparr>closed := True\<rparr>)\<rparr> in
         case fileno_of (heap p r) of
           None \<Rightarrow> (e1, p2)
         | Some d \<Rightarrow>
             if closefd (heap p r) then
               (case os_close d p2 of
                  (e2, p3) \<Rightarrow> (case e1 of Some e \<Rightarrow> (Some e, p3) | None \<Rightarrow> (e2, p3)))
             else (e1, p2)))"

text \<open>\<open>StringIO(text)\<close>.\<close>

definition StringIO :: "pystr \<Rightarrow> proc \<Rightarrow> ref \<times> proc" where
  "StringIO t p =
     alloc_obj \<lparr>fileno_of = None, closed = False, closefd = False, has_raw = False,
                pending = [], content = t\<rparr> p"

text \<open>\<open>open(os.devnull, mode="wb")\<close>.\<close>

definition open_devnull :: "proc \<Rightarrow> (error + ref) \<times> proc" where
  "open_devnull p =
     (case os_open Null_dev p of
        (Inl e, p') \<Rightarrow> (Inl e, p')
      | (Inr d, p') \<Rightarrow> (case alloc_obj (new_file_obj d True) p' of (r, p'') \<Rightarrow> (Inr r, p'')))"

text \<open>\<open>tempfile.TemporaryFile("w+b", prefix="failprint-")\<close>: a new, empty, anonymous file.\<close>

definition TemporaryFile :: "proc \<Rightarrow> (error + ref) \<times> proc" where
  "TemporaryFile p =
     (case os_open (Temp_file (next_file p)) p of
        (Inl e, p') \<Rightarrow> (Inl e, p')
      | (Inr d, p') \<Rightarrow>
          (case alloc_obj (new_file_obj d True)
                  (p'\<lparr>files := (files p')(next_file p := []), next_file := Suc (next_file p)\<rparr>) of
             (r, p'') \<Rightarrow> (Inr r, p'')))"

text \<open>
  \<open>f.seek(0)\<close> followed by \<open>f.read()\<close> on a binary file object: the whole contents of the
  file behind the descriptor.
\<close>

definition read_all :: "ref \<Rightarrow> proc \<Rightarrow> error + pybytes" where
  "read_all r p =
     (case fileno r p of
        Inl e \<Rightarrow> Inl e
      | Inr d \<Rightarrow>
          (case fdtab p d of
             Some (Temp_file k) \<Rightarrow> Inr (files p k)
           | Some Null_dev \<Rightarrow> Inr []
           | _ \<Rightarrow> Inl OSError))"

subsection \<open>Decoding\<close>

text \<open>
  \<open>bytes.decode("utf-8")\<close> with the default strict error handling: \<open>None\<close> stands for
  \<open>UnicodeDecodeError\<close>. Overlong forms, surrogates and code points above \<open>0x10FFFF\<close> are
  rejected.
\<close>

definition cont :: "byte \<Rightarrow> bool" where
  "cont b = (0x80 \<le> b \<and> b \<le> 0xBF)"

definition low6 :: "byte \<Rightarrow> nat" where
  "low6 b = unat b - 0x80"

text \<open>The range of the second byte, which depends on the first.\<close>

definition second_lo :: "byte \<Rightarrow> byte" where
  "second_lo b0 = (if b0 = 0xE0 then 0xA0 else if b0 = 0xF0 then 0x90 else 0x80)"

definition second_hi :: "byte \<Rightarrow> byte" where
  "second_hi b0 = (if b0 = 0xED then 0x9F else if b0 = 0xF4 then 0x8F else 0xBF)"

fun utf8_decode :: "pybytes \<Rightarrow> pystr option" where
  "utf8_decode [] = Some []"
| "utf8_decode (b0 # bs) =
     (if b0 < 0x80 then map_option ((#) (unat b0)) (utf8_decode bs)
      else if 0xC2 \<le> b0 \<and> b0 \<le> 0xDF then
        (case bs of
           b1 # r \<Rightarrow>
             if cont b1
             then map_option ((#) ((unat b0 - 0xC0) * 64 + low6 b1)) (utf8_decode r)
             else None
         | _ \<Rightarrow> None)
      else if 0xE0 \<le> b0 \<and> b0 \<le> 0xEF then
        (case bs of
           b1 # b2 # r \<Rightarrow>
             if second_lo b0 \<le> b1 \<and> b1 \<le> second_hi b0 \<and> cont b2
             then map_option ((#) ((unat b0 - 0xE0) * 4096 + low6 b1 * 64 + low6 b2))
                    (utf8_decode r)
             else None
         | _ \<Rightarrow> None)
      else if 0xF0 \<le> b0 \<and> b0 \<le> 0xF4 then
        (case bs of
           b1 # b2 # b3 # r \<Rightarrow>
             if second_lo b0 \<le> b1 \<and> b1 \<le> second_hi b0 \<and> cont b2 \<and> cont b3
             then map_option
                    ((#) ((unat b0 - 0xF0) * 262144 + low6 b1 * 4096 + low6 b2 * 64 + low6 b3))
                    (utf8_decode r)
             else None
         | _ \<Rightarrow> None)
      else None)"

text \<open>\<open>f.readlines()\<close> on a binary file: every line keeps its line feed.\<close>

fun readlines :: "pybytes \<Rightarrow> pybytes list" where
  "readlines [] = []"
| "readlines (b # bs) =
     (if b = 0x0A then [b] # readlines bs
      else case readlines bs of [] \<Rightarrow> [[b]] | l # ls \<Rightarrow> (b # l) # ls)"

text \<open>
  The loop of \<open>__exit__\<close> on Windows: each line is decoded as UTF-8 and, when that raises
  \<open>UnicodeDecodeError\<close>, with the codec named by \<open>os.device_encoding(0)\<close>. The argument
  \<open>dev\<close> is that codec's decoder, \<open>None\<close> when \<open>os.device_encoding(0)\<close> is \<open>None\<close>
  (then \<open>line.decode(None)\<close> raises \<open>TypeError\<close>).
\<close>

fun decode_lines ::
  "(pybytes \<Rightarrow> pystr option) option \<Rightarrow> pybytes list \<Rightarrow> pystr list \<Rightarrow> error + pystr list" where
  "decode_lines dev [] clean_decoded = Inr clean_decoded"
| "decode_lines dev (line # ls) clean_decoded =
     (case utf8_decode line of
        Some ln \<Rightarrow> decode_lines dev ls (clean_decoded @ [ln])
      | None \<Rightarrow>
          (case dev of
             None \<Rightarrow> Inl TypeError
           | Some d \<Rightarrow>
               (case d line of
                  None \<Rightarrow> Inl UnicodeDecodeError
                | Some ln \<Rightarrow> decode_lines dev ls (clean_decoded @ [ln]))))"

text \<open>The two branches of \<open>__exit__\<close> that turn the bytes of the temporary file into text.\<close>

definition decode_captured ::
  "bool \<Rightarrow> (pybytes \<Rightarrow> pystr option) option \<Rightarrow> pybytes \<Rightarrow> error + pystr" where
  "decode_captured windows dev b =
     (if windows then
        (case decode_lines dev (readlines b) [] of
           Inl e \<Rightarrow> Inl e
         | Inr clean_decoded \<Rightarrow> Inr (concat clean_decoded))
      else
        (case utf8_decode b of
           None \<Rightarrow> Inl UnicodeDecodeError
         | Some t \<Rightarrow> Inr t))"

section \<open>The class \<open>CaptureManager\<close>\<close>

text \<open>
  The attributes of a \<open>CaptureManager\<close>, \<open>self._x\<close> written \<open>self_x\<close>. The attributes
  \<open>_new_stdout_fd\<close> and \<open>_new_stderr_fd\<close> are not set by \<open>__init__\<close>: they are \<open>None\<close> until
  \<open>__enter__\<close> assigns them, and reading them before raises \<open>AttributeError\<close>.
\<close>

record session =
  self_temp_file :: "ref option"
  self_capture :: Capture
  self_devnull :: "ref option"
  self_stdin :: "pystr option"
  self_saved_stderr :: "ref option"
  self_saved_stdout :: "ref option"
  self_saved_stdin :: "ref option"
  self_stdout_fd :: fd
  self_stderr_fd :: fd
  self_saved_stdout_fd :: fd
  self_saved_stderr_fd :: fd
  self_output :: "pystr option"
  self_new_stdout_fd :: "fd option"
  self_new_stderr_fd :: "fd option"

text \<open>
  A method acts on the object and on the process. It returns the exception it raised, if
  any, with the object and the process as they are at that moment: what was done before
  the exception stays done.
\<close>

type_synonym world = "session \<times> proc"
type_synonym outcome = "error option \<times> world"

definition raised :: "outcome \<Rightarrow> error option" where
  "raised out = fst out"

definition world_of :: "outcome \<Rightarrow> world" where
  "world_of out = snd out"

definition session_of :: "outcome \<Rightarrow> session" where
  "session_of out = fst (snd out)"

definition proc_of :: "outcome \<Rightarrow> proc" where
  "proc_of out = snd (snd out)"

text \<open>Statements run one after the other; an exception ends the run.\<close>

fun run :: "(world \<Rightarrow> outcome) list \<Rightarrow> world \<Rightarrow> outcome" where
  "run [] w = (None, w)"
| "run (f # fs) w = (case f w of (None, w') \<Rightarrow> run fs w' | (Some e, w') \<Rightarrow> (Some e, w'))"

definition CaptureManager_init :: "Capture \<Rightarrow> pystr option \<Rightarrow> proc \<Rightarrow> outcome" where
  "CaptureManager_init capture stdin p =
     (None,
      \<lparr>self_temp_file = None, self_capture = capture, self_devnull = None,
       self_stdin = stdin, self_saved_stderr = None, self_saved_stdout = None,
       self_saved_stdin = None, self_stdout_fd = - 1, self_stderr_fd = - 1,
       self_saved_stdout_fd = - 1, self_saved_stderr_fd = - 1, self_output = None,
       self_new_stdout_fd = None, self_new_stderr_fd = None\<rparr>,
      p)"

subsection \<open>\<open>_reopen_stdio\<close>\<close>

definition reopen_stdio :: "ref \<Rightarrow> string \<Rightarrow> proc \<Rightarrow> (error + ref) \<times> proc" where
  "reopen_stdio f mode p =
     (case fileno_of (heap p f) of
        None \<Rightarrow> (Inl AttributeError, p)
      | Some _ \<Rightarrow>
          (let buffering = (if \<not> has_raw (heap p f) \<and> hd mode = CHR ''w'' then 0 else - 1 :: int)
           in case fileno f p of
                Inl e \<Rightarrow> (Inl e, p)
              | Inr d \<Rightarrow>
                  (case fdtab p d of
                     None \<Rightarrow> (Inl OSError, p)
                   | Some _ \<Rightarrow>
                       (case alloc_obj (new_file_obj d (buffering \<noteq> 0)) p of
                          (r, p') \<Rightarrow> (Inr r, p')))))"

subsection \<open>\<open>__enter__\<close>\<close>

definition flush_stdout :: "world \<Rightarrow> outcome" where
  "flush_stdout w = (case w of (m, p) \<Rightarrow> (case flush (sys_stdout p) p of (e, p') \<Rightarrow> (e, m, p')))"

definition flush_stderr :: "world \<Rightarrow> outcome" where
  "flush_stderr w = (case w of (m, p) \<Rightarrow> (case flush (sys_stderr p) p of (e, p') \<Rightarrow> (e, m, p')))"

text \<open>Patch \<open>sys.stdin\<close> if needed.\<close>

definition patch_stdin :: "world \<Rightarrow> outcome" where
  "patch_stdin w =
     (case w of (m, p) \<Rightarrow>
        (case self_stdin m of
           None \<Rightarrow> (None, m, p)
         | Some t \<Rightarrow>
             (case StringIO t p of
                (r, p') \<Rightarrow> (None, m\<lparr>self_saved_stdin := Some (sys_stdin p)\<rparr>, p'\<lparr>sys_stdin := r\<rparr>))))"

text \<open>Open devnull if needed.\<close>

definition enter_devnull :: "world \<Rightarrow> outcome" where
  "enter_devnull w =
     (case w of (m, p) \<Rightarrow>
        if self_capture m \<in> {STDOUT, STDERR} then
          (case open_devnull p of
             (Inl e, p') \<Rightarrow> (Some e, m, p')
           | (Inr r, p') \<Rightarrow> (None, m\<lparr>self_devnull := Some r\<rparr>, p'))
        else (None, m, p))"

text \<open>\<open>sys.stdout = _reopen_stdio(sys.stdout, "wb")\<close>, and the same for \<open>sys.stderr\<close>.\<close>

definition reopen_stdout :: "world \<Rightarrow> outcome" where
  "reopen_stdout w =
     (case w of (m, p) \<Rightarrow>
        (case reopen_stdio (sys_stdout p) ''wb'' p of
           (Inl e, p') \<Rightarrow> (Some e, m, p')
         | (Inr r, p') \<Rightarrow> (None, m, p'\<lparr>sys_stdout := r\<rparr>)))"

definition reopen_stderr :: "world \<Rightarrow> outcome" where
  "reopen_stderr w =
     (case w of (m, p) \<Rightarrow>
        (case reopen_stdio (sys_stderr p) ''wb'' p of
           (Inl e, p') \<Rightarrow> (Some e, m, p')
         | (Inr r, p') \<Rightarrow> (None, m, p'\<lparr>sys_stderr := r\<rparr>)))"

text \<open>
  \<open>os.dup2(src, dst)\<close> followed, on Windows, by the reopening of the stream: the body of
  each of the four redirecting branches.
\<close>

definition dup2_stdout :: "fd \<Rightarrow> world \<Rightarrow> outcome" where
  "dup2_stdout src w =
     (case w of (m, p) \<Rightarrow>
        (case os_dup2 src (self_stdout_fd m) p of
           (Some e, p') \<Rightarrow> (Some e, m, p')
         | (None, p') \<Rightarrow> if WINDOWS p' then reopen_stdout (m, p') else (None, m, p')))"

definition dup2_stderr :: "fd \<Rightarrow> world \<Rightarrow> outcome" where
  "dup2_stderr src w =
     (case w of (m, p) \<Rightarrow>
        (case os_dup2 src (self_stderr_fd m) p of
           (Some e, p') \<Rightarrow> (Some e, m, p')
         | (None, p') \<Rightarrow> if WINDOWS p' then reopen_stderr (m, p') else (None, m, p')))"

text \<open>\<open>self._devnull.fileno()\<close>.\<close>

definition devnull_fileno :: "session \<Rightarrow> proc \<Rightarrow> error + fd" where
  "devnull_fileno m p =
     (case self_devnull m of None \<Rightarrow> Inl AttributeError | Some r \<Rightarrow> fileno r p)"

text \<open>Save the current stdout and redirect it to the temporary file or to devnull.\<close>

definition redirect_stdout :: "fd \<Rightarrow> world \<Rightarrow> outcome" where
  "redirect_stdout fdw w =
     (case w of (m, p) \<Rightarrow>
        (let m1 = m\<lparr>self_saved_stdout := Some (sys_stdout p)\<rparr> in
         case fileno (sys_stdout p) p of
           Inl e \<Rightarrow> (Some e, m1, p)
         | Inr d \<Rightarrow>
             (let m2 = m1\<lparr>self_stdout_fd := d\<rparr> in
              case os_dup d p of
                (Inl e, p1) \<Rightarrow> (Some e, m2, p1)
              | (Inr n, p1) \<Rightarrow>
                  (let m3 = m2\<lparr>self_new_stdout_fd := Some n\<rparr> in
                   if self_capture m3 \<in> {BOTH, STDOUT} then dup2_stdout fdw (m3, p1)
                   else if self_capture m3 = STDERR then
                     (case devnull_fileno m3 p1 of
                        Inl e \<Rightarrow> (Some e, m3, p1)
                      | Inr dn \<Rightarrow> dup2_stdout dn (m3, p1))
                   else (None, m3, p1)))))"

text \<open>Save the current stderr and redirect it to the temporary file or to devnull.\<close>

definition redirect_stderr :: "fd \<Rightarrow> world \<Rightarrow> outcome" where
  "redirect_stderr fdw w =
     (case w of (m, p) \<Rightarrow>
        (let m1 = m\<lparr>self_saved_stderr := Some (sys_stderr p)\<rparr> in
         case fileno (sys_stderr p) p of
           Inl e \<Rightarrow> (Some e, m1, p)
         | Inr d \<Rightarrow>
             (let m2 = m1\<lparr>self_stderr_fd := d\<rparr> in
              case os_dup d p of
                (Inl e, p1) \<Rightarrow> (Some e, m2, p1)
              | (Inr n, p1) \<Rightarrow>
                  (let m3 = m2\<lparr>self_new_stderr_fd := Some n\<rparr> in
                   if self_capture m3 \<in> {BOTH, STDERR} then dup2_stderr fdw (m3, p1)
                   else if self_capture m3 = STDOUT then
                     (case devnull_fileno m3 p1 of
                        Inl e \<Rightarrow> (Some e, m3, p1)
                      | Inr dn \<Rightarrow> dup2_stderr dn (m3, p1))
                   else (None, m3, p1)))))"

text \<open>
  Create the temporary file, take its descriptor \<open>fdw\<close>, and redirect both streams.
\<close>

definition enter_redirect :: "world \<Rightarrow> outcome" where
  "enter_redirect w =
     (case w of (m, p) \<Rightarrow>
        (case TemporaryFile p of
           (Inl e, p') \<Rightarrow> (Some e, m, p')
         | (Inr tf, p') \<Rightarrow>
             (let m' = m\<lparr>self_temp_file := Some tf\<rparr> in
              case fileno tf p' of
                Inl e \<Rightarrow> (Some e, m', p')
              | Inr fdw \<Rightarrow> run [redirect_stdout fdw, redirect_stderr fdw] (m', p'))))"

definition CaptureManager_enter :: "world \<Rightarrow> outcome" where
  "CaptureManager_enter w =
     (if self_capture (fst w) = NONE then (None, w)
      else run [flush_stdout, flush_stderr, patch_stdin, enter_devnull, enter_redirect] w)"

subsection \<open>\<open>__exit__\<close>\<close>

text \<open>Restore stdin to its previous value.\<close>

definition restore_stdin :: "world \<Rightarrow> outcome" where
  "restore_stdin w =
     (case w of (m, p) \<Rightarrow>
        (case self_saved_stdin m of
           None \<Rightarrow> (None, m, p)
         | Some r \<Rightarrow> (None, m, p\<lparr>sys_stdin := r\<rparr>)))"

text \<open>Close devnull if needed.\<close>

definition close_devnull :: "world \<Rightarrow> outcome" where
  "close_devnull w =
     (case w of (m, p) \<Rightarrow>
        (case self_devnull m of
           None \<Rightarrow> (None, m, p)
         | Some r \<Rightarrow> (case close r p of (e, p') \<Rightarrow> (e, m, p'))))"

definition close_stdout :: "world \<Rightarrow> outcome" where
  "close_stdout w = (case w of (m, p) \<Rightarrow> (case close (sys_stdout p) p of (e, p') \<Rightarrow> (e, m, p')))"

definition close_stderr :: "world \<Rightarrow> outcome" where
  "close_stderr w = (case w of (m, p) \<Rightarrow> (case close (sys_stderr p) p of (e, p') \<Rightarrow> (e, m, p')))"

text \<open>Restore stdout and stderr to their previous values.\<close>

definition restore_stdout_fd :: "world \<Rightarrow> outcome" where
  "restore_stdout_fd w =
     (case w of (m, p) \<Rightarrow>
        (case self_new_stdout_fd m of
           None \<Rightarrow> (Some AttributeError, m, p)
         | Some n \<Rightarrow> (case os_dup2 n (self_stdout_fd m) p of (e, p') \<Rightarrow> (e, m, p'))))"

definition restore_stderr_fd :: "world \<Rightarrow> outcome" where
  "restore_stderr_fd w =
     (case w of (m, p) \<Rightarrow>
        (case self_new_stderr_fd m of
           None \<Rightarrow> (Some AttributeError, m, p)
         | Some n \<Rightarrow> (case os_dup2 n (self_stderr_fd m) p of (e, p') \<Rightarrow> (e, m, p'))))"

definition restore_sys_stdout :: "world \<Rightarrow> outcome" where
  "restore_sys_stdout w =
     (case w of (m, p) \<Rightarrow>
        (case self_saved_stdout m of
           None \<Rightarrow> (None, m, p)
         | Some r \<Rightarrow> (None, m, p\<lparr>sys_stdout := r\<rparr>)))"

definition restore_sys_stderr :: "world \<Rightarrow> outcome" where
  "restore_sys_stderr w =
     (case w of (m, p) \<Rightarrow>
        (case self_saved_stderr m of
           None \<Rightarrow> (None, m, p)
         | Some r \<Rightarrow> (None, m, p\<lparr>sys_stderr := r\<rparr>)))"

text \<open>Read contents from temporary file, close it.\<close>

definition read_temp_file :: "world \<Rightarrow> outcome" where
  "read_temp_file w =
     (case w of (m, p) \<Rightarrow>
        (case self_temp_file m of
           None \<Rightarrow> (None, m, p)
         | Some tf \<Rightarrow>
             (case read_all tf p of
                Inl e \<Rightarrow> (Some e, m, p)
              | Inr b \<Rightarrow>
                  (case decode_captured (WINDOWS p) (device_encoding p) b of
                     Inl e \<Rightarrow> (Some e, m, p)
                   | Inr t \<Rightarrow>
                       (case close tf p of (e, p') \<Rightarrow> (e, m\<lparr>self_output := Some t\<rparr>, p'))))))"

definition CaptureManager_exit :: "world \<Rightarrow> outcome" where
  "CaptureManager_exit w =
     (if self_capture (fst w) = NONE then run [flush_stdout, flush_stderr] w
      else run [restore_stdin, close_devnull,
                flush_stdout, close_stdout, flush_stderr, close_stderr,
                restore_stdout_fd, restore_stderr_fd,
                restore_sys_stdout, restore_sys_stderr,
                read_temp_file] w)"

subsection \<open>\<open>output\<close> and \<open>__str__\<close>\<close>

text \<open>The property \<open>output\<close>: its value is \<open>self._output\<close>, which may be \<open>None\<close>.\<close>

definition CaptureManager_output :: "session \<Rightarrow> error + pystr option" where
  "CaptureManager_output m =
     (if self_output m = None \<and> self_capture m \<noteq> NONE then Inl RuntimeError
      else Inr (self_output m))"

text \<open>
  \<open>str(captured)\<close>: the interpreter calls \<open>__str__\<close>, which returns \<open>self.output\<close>, and
  raises \<open>TypeError\<close> when the value returned is not a \<open>str\<close>.
\<close>

definition CaptureManager_str :: "session \<Rightarrow> error + pystr" where
  "CaptureManager_str m =
     (case CaptureManager_output m of
        Inl e \<Rightarrow> Inl e
      | Inr None \<Rightarrow> Inl TypeError
      | Inr (Some t) \<Rightarrow> Inr t)"

subsection \<open>\<open>Capture.here\<close>\<close>

text \<open>
  \<open>with CaptureManager(self, stdin=stdin) as captured: yield captured\<close>, run with the
  caller's block: when \<open>__enter__\<close> raises, the \<open>with\<close> statement does not call
  \<open>__exit__\<close>; otherwise \<open>__exit__\<close> is called when the block returns and when it
  raises, and, as \<open>__exit__\<close> returns \<open>None\<close>, the block's exception is raised again. The
  block acts on the process and returns the exception it raised, if any.
\<close>

definition Capture_here ::
  "Capture \<Rightarrow> pystr option \<Rightarrow> (world \<Rightarrow> error option \<times> proc) \<Rightarrow> proc \<Rightarrow> outcome" where
  "Capture_here self stdin block p =
     (case CaptureManager_enter (world_of (CaptureManager_init self stdin p)) of
        (Some e, w) \<Rightarrow> (Some e, w)
      | (None, m, p1) \<Rightarrow>
          (case block (m, p1) of
             (exc, p2) \<Rightarrow>
               (case CaptureManager_exit (m, p2) of
                  (Some e, w) \<Rightarrow> (Some e, w)
                | (None, w) \<Rightarrow> (exc, w))))"

section \<open>A process to run the code on\<close>

text \<open>
  A process with its three standard descriptors open on three destinations, the three
  standard stream objects on them (they do not own their descriptor), and room for
  \<open>limit\<close> descriptors.
\<close>

definition std_stream :: "fd \<Rightarrow> stream" where
  "std_stream d =
     \<lparr>fileno_of = Some d, closed = False, closefd = False, has_raw = True,
      pending = [], content = []\<rparr>"

definition proc0 :: "bool \<Rightarrow> int \<Rightarrow> proc" where
  "proc0 windows limit =
     \<lparr>WINDOWS = windows, fd_limit = limit,
      fdtab = [0 \<mapsto> Dest 0, 1 \<mapsto> Dest 1, 2 \<mapsto> Dest 2],
      files = (\<lambda>k. []), next_file = 0,
      received = (\<lambda>n. []),
      heap = (\<lambda>r. std_stream (int r)), next_ref = 3,
      sys_stdin = 0, sys_stdout = 1, sys_stderr = 2,
      device_encoding = None\<rparr>"

text \<open>The same process with two bytes written to \<open>sys.stdout\<close> and not flushed yet.\<close>

definition proc_buffered :: proc where
  "proc_buffered =
     (proc0 False 16)\<lparr>heap := (heap (proc0 False 16))(1 := (std_stream 1)\<lparr>pending := [0x68, 0x69]\<rparr>)\<rparr>"



text \<open>
  Blocks of work: one that does nothing, one that writes bytes to descriptor 1 as a
  child process or a native library would, one that raises.
\<close>

definition no_block :: "world \<Rightarrow> error option \<times> proc" where
  "no_block w = (None, snd w)"


definition raising_block :: "world \<Rightarrow> error option \<times> proc" where
  "raising_block w = (Some RuntimeError, snd w)"



text \<open>
  The standard streams of a process are open: \<open>sys.stdout\<close> and \<open>sys.stderr\<close> are objects
  of the heap on two different descriptors, both open.
\<close>

definition std_streams_open :: "proc \<Rightarrow> bool" where
  "std_streams_open p =
     (sys_stdout p < next_ref p \<and> sys_stderr p < next_ref p \<and>
      (case (fileno_of (heap p (sys_stdout p)), fileno_of (heap p (sys_stderr p))) of
         (Some d1, Some d2) \<Rightarrow> d1 \<noteq> d2 \<and> fdtab p d1 \<noteq> None \<and> fdtab p d2 \<noteq> None
       | _ \<Rightarrow> False))"

section \<open>Auxiliary notions for the proofs\<close>



text \<open>
  The standard streams are open on the descriptors \<open>d1\<close> and \<open>d2\<close>; the handle of the
  session on the discard device is open on the descriptor \<open>dn\<close>.
\<close>

definition std_on :: "fd \<Rightarrow> fd \<Rightarrow> proc \<Rightarrow> bool" where
  "std_on d1 d2 p =
     (sys_stdout p < next_ref p \<and> sys_stderr p < next_ref p \<and>
      fileno_of (heap p (sys_stdout p)) = Some d1 \<and>
      fileno_of (heap p (sys_stderr p)) = Some d2 \<and>
      d1 \<noteq> d2 \<and> fdtab p d1 \<noteq> None \<and> fdtab p d2 \<noteq> None)"

definition devnull_on :: "fd \<Rightarrow> world \<Rightarrow> bool" where
  "devnull_on dn w =
     (case self_devnull (fst w) of
        None \<Rightarrow> False
      | Some r \<Rightarrow> r < next_ref (snd w) \<and> \<not> closed (heap (snd w) r) \<and>
          fileno_of (heap (snd w) r) = Some dn \<and> fdtab (snd w) dn = Some Null_dev)"




section \<open>Lemmas about runs and about the attributes of the object\<close>

lemmas proj_defs = raised_def world_of_def session_of_def proc_of_def

subsection \<open>Runs\<close>

lemma run_ok: "fst (f w) = None \<Longrightarrow> run (f # fs) w = run fs (snd (f w))"
  by (cases "f w") simp

lemma run_fail: "fst (f w) = Some e \<Longrightarrow> run (f # fs) w = f w"
  by (cases "f w") simp

lemma run_inv:
  assumes "\<And>f w. f \<in> set fs \<Longrightarrow> I w \<Longrightarrow> I (snd (f w))" and "I w"
  shows "I (snd (run fs w))"
  using assms
proof (induction fs arbitrary: w)
  case Nil
  then show ?case by simp
next
  case (Cons f fs)
  show ?case
  proof (cases "fst (f w)")
    case None
    have "I (snd (f w))" using Cons.prems by simp
    then have "I (snd (run fs (snd (f w))))"
      using Cons.IH Cons.prems(1) by simp
    then show ?thesis using None by (simp add: run_ok del: run.simps)
  next
    case (Some e)
    then show ?thesis using Cons.prems by (simp add: run_fail del: run.simps)
  qed
qed

subsection \<open>Steps that leave the object alone\<close>

lemma session_flush_stdout: "fst (snd (flush_stdout w)) = fst w"
  by (simp add: flush_stdout_def split: prod.splits)

lemma session_flush_stderr: "fst (snd (flush_stderr w)) = fst w"
  by (simp add: flush_stderr_def split: prod.splits)

lemma session_reopen_stdout: "fst (snd (reopen_stdout w)) = fst w"
  by (simp add: reopen_stdout_def split: prod.splits sum.splits)

lemma session_reopen_stderr: "fst (snd (reopen_stderr w)) = fst w"
  by (simp add: reopen_stderr_def split: prod.splits sum.splits)

lemma session_dup2_stdout: "fst (snd (dup2_stdout src w)) = fst w"
  by (simp add: dup2_stdout_def session_reopen_stdout split: prod.splits option.splits)

lemma session_dup2_stderr: "fst (snd (dup2_stderr src w)) = fst w"
  by (simp add: dup2_stderr_def session_reopen_stderr split: prod.splits option.splits)

lemma session_restore_stdin: "fst (snd (restore_stdin w)) = fst w"
  by (simp add: restore_stdin_def split: prod.splits option.splits)

lemma session_close_devnull: "fst (snd (close_devnull w)) = fst w"
  by (simp add: close_devnull_def split: prod.splits option.splits)

lemma session_close_stdout: "fst (snd (close_stdout w)) = fst w"
  by (simp add: close_stdout_def split: prod.splits)

lemma session_close_stderr: "fst (snd (close_stderr w)) = fst w"
  by (simp add: close_stderr_def split: prod.splits)

lemma session_restore_stdout_fd: "fst (snd (restore_stdout_fd w)) = fst w"
  by (simp add: restore_stdout_fd_def split: prod.splits option.splits)

lemma session_restore_stderr_fd: "fst (snd (restore_stderr_fd w)) = fst w"
  by (simp add: restore_stderr_fd_def split: prod.splits option.splits)

lemma session_restore_sys_stdout: "fst (snd (restore_sys_stdout w)) = fst w"
  by (simp add: restore_sys_stdout_def split: prod.splits option.splits)

lemma session_restore_sys_stderr: "fst (snd (restore_sys_stderr w)) = fst w"
  by (simp add: restore_sys_stderr_def split: prod.splits option.splits)

lemmas session_same =
  session_flush_stdout session_flush_stderr session_reopen_stdout session_reopen_stderr
  session_dup2_stdout session_dup2_stderr session_restore_stdin session_close_devnull
  session_close_stdout session_close_stderr session_restore_stdout_fd
  session_restore_stderr_fd session_restore_sys_stdout session_restore_sys_stderr

subsection \<open>What the other steps of \<open>__enter__\<close> do to the object\<close>

lemma keeps_patch_stdin:
  "self_output (fst (snd (patch_stdin w))) = self_output (fst w)"
  "self_capture (fst (snd (patch_stdin w))) = self_capture (fst w)"
  "self_stdin (fst (snd (patch_stdin w))) = self_stdin (fst w)"
  "self_devnull (fst (snd (patch_stdin w))) = self_devnull (fst w)"
  "self_temp_file (fst (snd (patch_stdin w))) = self_temp_file (fst w)"
  by (simp_all add: patch_stdin_def split: prod.splits option.splits)


lemma keeps_redirect_stdout:
  "self_output (fst (snd (redirect_stdout fdw w))) = self_output (fst w)"
  "self_capture (fst (snd (redirect_stdout fdw w))) = self_capture (fst w)"
  "self_stdin (fst (snd (redirect_stdout fdw w))) = self_stdin (fst w)"
  "self_saved_stdin (fst (snd (redirect_stdout fdw w))) = self_saved_stdin (fst w)"
  "self_devnull (fst (snd (redirect_stdout fdw w))) = self_devnull (fst w)"
  "self_temp_file (fst (snd (redirect_stdout fdw w))) = self_temp_file (fst w)"
  by (simp_all add: redirect_stdout_def Let_def session_dup2_stdout
        split: prod.splits sum.splits)

lemma keeps_redirect_stderr:
  "self_output (fst (snd (redirect_stderr fdw w))) = self_output (fst w)"
  "self_capture (fst (snd (redirect_stderr fdw w))) = self_capture (fst w)"
  "self_stdin (fst (snd (redirect_stderr fdw w))) = self_stdin (fst w)"
  "self_saved_stdin (fst (snd (redirect_stderr fdw w))) = self_saved_stdin (fst w)"
  "self_devnull (fst (snd (redirect_stderr fdw w))) = self_devnull (fst w)"
  "self_temp_file (fst (snd (redirect_stderr fdw w))) = self_temp_file (fst w)"
  by (simp_all add: redirect_stderr_def Let_def session_dup2_stderr
        split: prod.splits sum.splits)

lemma run_keeps:
  assumes "\<And>f v. f \<in> set fs \<Longrightarrow> g (fst (snd (f v))) = g (fst v)"
  shows "g (fst (snd (run fs w))) = g (fst w)"
  by (rule run_inv [where I = "\<lambda>v. g (fst v) = g (fst w)"]) (simp_all add: assms)

lemma keeps_redirect_both:
  "self_output (fst (snd (run [redirect_stdout fdw, redirect_stderr fdw] w))) = self_output (fst w)"
  "self_capture (fst (snd (run [redirect_stdout fdw, redirect_stderr fdw] w))) = self_capture (fst w)"
  "self_stdin (fst (snd (run [redirect_stdout fdw, redirect_stderr fdw] w))) = self_stdin (fst w)"
  "self_saved_stdin (fst (snd (run [redirect_stdout fdw, redirect_stderr fdw] w))) = self_saved_stdin (fst w)"
  "self_devnull (fst (snd (run [redirect_stdout fdw, redirect_stderr fdw] w))) = self_devnull (fst w)"
  "self_temp_file (fst (snd (run [redirect_stdout fdw, redirect_stderr fdw] w))) = self_temp_file (fst w)"
  by (rule run_keeps; auto simp: keeps_redirect_stdout keeps_redirect_stderr)+

lemma keeps_enter_redirect:
  "self_output (fst (snd (enter_redirect w))) = self_output (fst w)"
  "self_capture (fst (snd (enter_redirect w))) = self_capture (fst w)"
  "self_stdin (fst (snd (enter_redirect w))) = self_stdin (fst w)"
  "self_saved_stdin (fst (snd (enter_redirect w))) = self_saved_stdin (fst w)"
  "self_devnull (fst (snd (enter_redirect w))) = self_devnull (fst w)"
  by (simp_all add: enter_redirect_def Let_def keeps_redirect_both del: run.simps
        split: prod.splits sum.splits)




subsection \<open>What \<open>__exit__\<close> does to the object\<close>


lemma session_exit_NONE:
  "self_capture (fst w) = NONE \<Longrightarrow> fst (snd (CaptureManager_exit w)) = fst w"
  unfolding CaptureManager_exit_def
  by (simp del: run.simps, rule run_keeps [where g = "\<lambda>m. m"]) (auto simp: session_same)


lemma keeps_read_temp_file:
  "self_capture (fst (snd (read_temp_file w))) = self_capture (fst w)"
  "self_temp_file (fst (snd (read_temp_file w))) = self_temp_file (fst w)"
  "self_saved_stdin (fst (snd (read_temp_file w))) = self_saved_stdin (fst w)"
  by (simp_all add: read_temp_file_def split: prod.splits option.splits sum.splits)




section \<open>Properties of \<open>Capture.cast\<close>\<close>

lemma Capture_value_inj: "Capture_value c = Capture_value d \<Longrightarrow> c = d"
  by (cases c; cases d; simp add: ustr_def)

lemma Capture_call_value: "Capture_call (Capture_value c) = Inr c"
  by (cases c; simp add: Capture_call_def Capture_members_def ustr_def)

lemma Capture_call_other:
  assumes "\<forall>c. s \<noteq> Capture_value c"
  shows "Capture_call s = Inl ValueError"
proof -
  have "find (\<lambda>c. Capture_value c = s) Capture_members = None"
    using assms by (auto simp: find_None_iff)
  then show ?thesis by (simp add: Capture_call_def)
qed

text \<open>
  Claim C4. \<open>cast\<close> maps an absent input and the boolean true to \<open>BOTH\<close>, the boolean
  false to \<open>NONE\<close>, a member of the enumeration to itself and the text that is the value
  of a member to that member; on every other text it fails with the error of the
  enumeration's lookup (\<open>ValueError\<close>).
\<close>

theorem cast_normalization:
  "cast PyNone = Inr BOTH \<and>
   cast (PyBool True) = Inr BOTH \<and>
   cast (PyBool False) = Inr NONE \<and>
   cast (PyCapture c) = Inr c \<and>
   cast (PyStr (Capture_value c)) = Inr c \<and>
   ((\<forall>d. s \<noteq> Capture_value d) \<longrightarrow> cast (PyStr s) = Inl ValueError)"
  using Capture_call_value [of c] Capture_call_other [of s] by simp

theorem cast_normalization_witness:
  "(\<forall>d. ustr ''loud'' \<noteq> Capture_value d) \<and>
   cast (PyStr (ustr ''loud'')) = Inl ValueError \<and>
   cast (PyStr (ustr ''stderr'')) = Inr STDERR"
proof -
  have h: "\<forall>d. ustr ''loud'' \<noteq> Capture_value d"
  proof
    fix d show "ustr ''loud'' \<noteq> Capture_value d"
      by (cases d; simp add: ustr_def)
  qed
  from cast_normalization [of STDERR "ustr ''loud''"] h show ?thesis
    by simp
qed

section \<open>The output accessor\<close>



text \<open>
  Claim C9. For a session of mode \<open>NONE\<close>, \<open>output\<close> does not raise and returns \<open>None\<close>
  after construction, after \<open>__enter__\<close> and after \<open>__exit__\<close> (whatever the process is
  then, and whether or not \<open>__exit__\<close> raised), and the conversion to text raises
  \<open>TypeError\<close>: it yields no string.
\<close>

theorem NONE_output_is_None:
  "CaptureManager_output (session_of (CaptureManager_init NONE i p)) = Inr None \<and>
   CaptureManager_output
     (session_of (CaptureManager_enter (world_of (CaptureManager_init NONE i p)))) = Inr None \<and>
   CaptureManager_output (session_of (CaptureManager_exit
     (session_of (CaptureManager_enter (world_of (CaptureManager_init NONE i p))), p2))) =
     Inr None \<and>
   CaptureManager_str (session_of (CaptureManager_init NONE i p)) = Inl TypeError \<and>
   CaptureManager_str
     (session_of (CaptureManager_enter (world_of (CaptureManager_init NONE i p)))) =
     Inl TypeError \<and>
   CaptureManager_str (session_of (CaptureManager_exit
     (session_of (CaptureManager_enter (world_of (CaptureManager_init NONE i p))), p2))) =
     Inl TypeError"
proof -
  let ?w0 = "world_of (CaptureManager_init NONE i p)"
  have en: "CaptureManager_enter ?w0 = (None, ?w0)"
    by (simp add: CaptureManager_enter_def CaptureManager_init_def proj_defs)
  have m0: "self_capture (fst ?w0) = NONE" "self_output (fst ?w0) = None"
    by (simp_all add: CaptureManager_init_def proj_defs)
  have s0: "session_of (CaptureManager_init NONE i p) = fst ?w0"
    by (simp add: proj_defs)
  have s1: "session_of (CaptureManager_enter ?w0) = fst ?w0"
    by (simp add: en session_of_def)
  have s2: "session_of (CaptureManager_exit (fst ?w0, p2)) = fst ?w0"
    using session_exit_NONE [of "(fst ?w0, p2)"] m0 by (simp add: session_of_def)
  have out: "CaptureManager_output (fst ?w0) = Inr None"
    using m0 by (simp add: CaptureManager_output_def)
  then have str: "CaptureManager_str (fst ?w0) = Inl TypeError"
    by (simp add: CaptureManager_str_def)
  show ?thesis
    unfolding s1 s2 s0 using out str by simp
qed

section \<open>Construction and the mode \<open>NONE\<close>\<close>

text \<open>
  Claim C10. Constructing a session raises nothing and leaves the process as it was: the
  constructor only sets the attributes of the new object, to the mode and the input
  given and to their initial values.
\<close>

theorem init_no_side_effect:
  "raised (CaptureManager_init c i p) = None \<and>
   proc_of (CaptureManager_init c i p) = p \<and>
   self_capture (session_of (CaptureManager_init c i p)) = c \<and>
   self_stdin (session_of (CaptureManager_init c i p)) = i \<and>
   self_temp_file (session_of (CaptureManager_init c i p)) = None \<and>
   self_devnull (session_of (CaptureManager_init c i p)) = None \<and>
   self_saved_stdin (session_of (CaptureManager_init c i p)) = None \<and>
   self_saved_stdout (session_of (CaptureManager_init c i p)) = None \<and>
   self_saved_stderr (session_of (CaptureManager_init c i p)) = None \<and>
   self_stdout_fd (session_of (CaptureManager_init c i p)) = - 1 \<and>
   self_stderr_fd (session_of (CaptureManager_init c i p)) = - 1 \<and>
   self_new_stdout_fd (session_of (CaptureManager_init c i p)) = None \<and>
   self_new_stderr_fd (session_of (CaptureManager_init c i p)) = None \<and>
   self_output (session_of (CaptureManager_init c i p)) = None"
  by (simp add: CaptureManager_init_def proj_defs)

text \<open>
  Claim C5, as amended. For a session of mode \<open>NONE\<close>, \<open>__enter__\<close> does nothing at all:
  it returns with the object and the process unchanged, so it does not flush either.
\<close>

theorem enter_NONE_nothing:
  "self_capture (fst w) = NONE \<Longrightarrow> CaptureManager_enter w = (None, w)"
  by (simp add: CaptureManager_enter_def)

theorem enter_NONE_nothing_witness:
  "self_capture (fst (world_of (CaptureManager_init NONE None proc_buffered))) = NONE \<and>
   CaptureManager_enter (world_of (CaptureManager_init NONE None proc_buffered)) =
     (None, world_of (CaptureManager_init NONE None proc_buffered))"
  using enter_NONE_nothing [of "world_of (CaptureManager_init NONE None proc_buffered)"]
  by (simp add: CaptureManager_init_def proj_defs)

text \<open>
  Claim C5 as stated fails: with two bytes pending in \<open>sys.stdout\<close>, flushing the two
  streams delivers them to the destination of descriptor 1, and \<open>__enter__\<close> of a
  session of mode \<open>NONE\<close> delivers nothing and leaves them pending.
\<close>

theorem enter_NONE_flush_counterexample:
  "received (proc_of (run [flush_stdout, flush_stderr]
      (world_of (CaptureManager_init NONE None proc_buffered)))) 1 = [0x68, 0x69] \<and>
   received (proc_of (CaptureManager_enter
      (world_of (CaptureManager_init NONE None proc_buffered)))) 1 = [] \<and>
   pending (heap (proc_of (CaptureManager_enter
      (world_of (CaptureManager_init NONE None proc_buffered)))) 1) = [0x68, 0x69]"
  by code_simp

section \<open>Descriptors after a scope\<close>

text \<open>
  Claim C1 at a concrete input. A process with descriptors 0, 1 and 2 open runs one
  capture scope of mode \<open>BOTH\<close> around a block that does nothing. The scope ends without
  an error, and descriptors 4 and 5, the duplicates that \<open>__enter__\<close> made of
  descriptors 1 and 2, are still open afterwards: \<open>__exit__\<close> copies them back with
  \<open>os.dup2\<close> and never closes them, so the process has five open descriptors where it had
  three. The same happens on Windows, where two scopes one after the other leave seven
  descriptors open.
\<close>

theorem capture_scope_leaks_descriptors:
  "raised (Capture_here BOTH None no_block (proc0 False 16)) = None \<and>
   open_fds (proc0 False 16) = [0, 1, 2] \<and>
   open_fds (proc_of (Capture_here BOTH None no_block (proc0 False 16))) = [0, 1, 2, 4, 5] \<and>
   self_new_stdout_fd (session_of (Capture_here BOTH None no_block (proc0 False 16))) = Some 4 \<and>
   self_new_stderr_fd (session_of (Capture_here BOTH None no_block (proc0 False 16))) = Some 5 \<and>
   fdtab (proc_of (Capture_here BOTH None no_block (proc0 False 16))) 4 = Some (Dest 1) \<and>
   fdtab (proc_of (Capture_here BOTH None no_block (proc0 False 16))) 5 = Some (Dest 2) \<and>
   raised (Capture_here BOTH None no_block (proc0 True 16)) = None \<and>
   open_fds (proc_of (Capture_here BOTH None no_block (proc0 True 16))) = [0, 1, 2, 4, 5] \<and>
   raised (Capture_here BOTH None no_block
     (proc_of (Capture_here BOTH None no_block (proc0 True 16)))) = None \<and>
   open_fds (proc_of (Capture_here BOTH None no_block
     (proc_of (Capture_here BOTH None no_block (proc0 True 16))))) = [0, 1, 2, 4, 5, 6, 7]"
  by code_simp

text \<open>
  Outside Windows a second scope in the same process does not start: \<open>__exit__\<close> has
  closed the object \<open>sys.stdout\<close>, which is the object it then puts back, and the first
  \<open>flush\<close> of the next \<open>__enter__\<close> raises \<open>ValueError\<close>.
\<close>

lemma second_scope_posix:
  "closed (heap (proc_of (Capture_here BOTH None no_block (proc0 False 16)))
     (sys_stdout (proc_of (Capture_here BOTH None no_block (proc0 False 16))))) \<and>
   raised (Capture_here BOTH None no_block
     (proc_of (Capture_here BOTH None no_block (proc0 False 16)))) = Some ValueError"
  by code_simp

section \<open>Faults during \<open>__enter__\<close>\<close>

text \<open>
  Claim C2 as stated fails. With room for five descriptors, \<open>__enter__\<close> of mode \<open>BOTH\<close>
  redirects descriptor 1 to the temporary file and then fails to duplicate descriptor 2.
  \<open>Capture.here\<close> raises that error and leaves descriptor 1 on the temporary file;
  \<open>__exit__\<close>, had it been called, would have put descriptor 1 back.
\<close>

theorem here_fault_counterexample:
  "raised (Capture_here BOTH None no_block (proc0 False 5)) = Some OSError \<and>
   fdtab (proc0 False 5) 1 = Some (Dest 1) \<and>
   fdtab (proc_of (Capture_here BOTH None no_block (proc0 False 5))) 1 = Some (Temp_file 0) \<and>
   open_fds (proc_of (Capture_here BOTH None no_block (proc0 False 5))) = [0, 1, 2, 3, 4] \<and>
   fdtab (proc_of (CaptureManager_exit
     (world_of (Capture_here BOTH None no_block (proc0 False 5))))) 1 = Some (Dest 1)"
  by code_simp

text \<open>
  Claim C2, as amended. When \<open>__enter__\<close> raises, \<open>Capture.here\<close> raises the same error
  and leaves the object and the process exactly as \<open>__enter__\<close> left them: \<open>__exit__\<close> is
  not called and nothing is undone. When \<open>__enter__\<close> returns, \<open>__exit__\<close> is called on
  the process as the block left it, whether the block returned or raised; the error of
  \<open>__exit__\<close>, or else the one of the block, is raised.
\<close>

theorem here_finalization:
  "(raised (CaptureManager_enter (world_of (CaptureManager_init c i p))) \<noteq> None \<longrightarrow>
      Capture_here c i block p = CaptureManager_enter (world_of (CaptureManager_init c i p))) \<and>
   (raised (CaptureManager_enter (world_of (CaptureManager_init c i p))) = None \<longrightarrow>
      world_of (Capture_here c i block p) =
        world_of (CaptureManager_exit
          (session_of (CaptureManager_enter (world_of (CaptureManager_init c i p))),
           snd (block (world_of (CaptureManager_enter (world_of (CaptureManager_init c i p))))))) \<and>
      raised (Capture_here c i block p) =
        (case raised (CaptureManager_exit
          (session_of (CaptureManager_enter (world_of (CaptureManager_init c i p))),
           snd (block (world_of (CaptureManager_enter (world_of (CaptureManager_init c i p))))))) of
           Some e \<Rightarrow> Some e
         | None \<Rightarrow> fst (block (world_of (CaptureManager_enter (world_of (CaptureManager_init c i p)))))))"
  by (auto simp: Capture_here_def raised_def world_of_def session_of_def
        split: prod.splits option.splits)

theorem here_finalization_witness:
  "raised (CaptureManager_enter (world_of (CaptureManager_init BOTH None (proc0 False 5)))) \<noteq> None \<and>
   Capture_here BOTH None no_block (proc0 False 5) =
     CaptureManager_enter (world_of (CaptureManager_init BOTH None (proc0 False 5))) \<and>
   raised (CaptureManager_enter (world_of (CaptureManager_init BOTH None (proc0 False 16)))) = None \<and>
   raised (Capture_here BOTH None raising_block (proc0 False 16)) = Some RuntimeError \<and>
   self_output (session_of (Capture_here BOTH None raising_block (proc0 False 16))) = Some [] \<and>
   fdtab (proc_of (Capture_here BOTH None raising_block (proc0 False 16))) 1 = Some (Dest 1)"
proof -
  have h1: "raised (CaptureManager_enter (world_of (CaptureManager_init BOTH None (proc0 False 5)))) \<noteq> None"
    by code_simp
  have h2: "raised (CaptureManager_enter (world_of (CaptureManager_init BOTH None (proc0 False 16)))) = None"
    by code_simp
  have c: "raised (Capture_here BOTH None raising_block (proc0 False 16)) = Some RuntimeError"
    "self_output (session_of (Capture_here BOTH None raising_block (proc0 False 16))) = Some []"
    "fdtab (proc_of (Capture_here BOTH None raising_block (proc0 False 16))) 1 = Some (Dest 1)"
    by code_simp+
  from here_finalization [of BOTH None "proc0 False 5" no_block] h1
  have "Capture_here BOTH None no_block (proc0 False 5) =
     CaptureManager_enter (world_of (CaptureManager_init BOTH None (proc0 False 5)))"
    by blast
  with here_finalization [of BOTH None "proc0 False 16" raising_block] h1 h2 c
  show ?thesis by simp
qed


section \<open>Decoding the captured bytes\<close>











section \<open>The null sink\<close>

lemma lowest_free_Some:
  "lowest_free p = Some d \<Longrightarrow> fdtab p d = None"
  by (auto simp: lowest_free_def find_Some_iff)

lemma run_Cons_None:
  "run (f # fs) w = (None, w') \<Longrightarrow> \<exists>w1. f w = (None, w1) \<and> run fs w1 = (None, w')"
  by (cases "f w") (auto split: option.splits)

lemma os_open_Inr:
  "os_open ch p = (Inr d, p') \<Longrightarrow> fdtab p d = None \<and> p' = p\<lparr>fdtab := (fdtab p)(d \<mapsto> ch)\<rparr>"
  by (auto simp: os_open_def split: option.splits dest: lowest_free_Some)

lemma os_dup_Inr:
  "os_dup d p = (Inr n, p') \<Longrightarrow>
   \<exists>ch. fdtab p d = Some ch \<and> fdtab p n = None \<and> p' = p\<lparr>fdtab := (fdtab p)(n \<mapsto> ch)\<rparr>"
  by (auto simp: os_dup_def split: option.splits dest: os_open_Inr)

lemma os_dup2_None:
  "os_dup2 d d2 p = (None, p') \<Longrightarrow>
   \<exists>ch. fdtab p d = Some ch \<and> p' = p\<lparr>fdtab := (fdtab p)(d2 \<mapsto> ch)\<rparr>"
  by (auto simp: os_dup2_def split: option.splits if_splits)

lemma std_on_flush: "std_on d1 d2 p \<Longrightarrow> flush r p = (e, p') \<Longrightarrow> std_on d1 d2 p'"
  by (auto simp: std_on_def flush_def os_write_def split: option.splits chan.splits if_splits)

lemma std_on_flush_stdout:
  "std_on d1 d2 p \<Longrightarrow> flush_stdout (m, p) = (e, m', p') \<Longrightarrow> std_on d1 d2 p' \<and> m' = m"
  by (auto simp: flush_stdout_def split: prod.splits dest: std_on_flush)

lemma std_on_flush_stderr:
  "std_on d1 d2 p \<Longrightarrow> flush_stderr (m, p) = (e, m', p') \<Longrightarrow> std_on d1 d2 p' \<and> m' = m"
  by (auto simp: flush_stderr_def split: prod.splits dest: std_on_flush)

lemma std_on_patch_stdin:
  "std_on d1 d2 p \<Longrightarrow> patch_stdin (m, p) = (e, m', p') \<Longrightarrow>
   std_on d1 d2 p' \<and> self_capture m' = self_capture m"
  by (auto simp: std_on_def patch_stdin_def StringIO_def alloc_obj_def split: prod.splits option.splits)

lemma devnull_on_enter_devnull:
  assumes "std_on d1 d2 p" and "enter_devnull (m, p) = (None, m', p')"
    and "self_capture m = STDOUT \<or> self_capture m = STDERR"
  shows "std_on d1 d2 p' \<and> self_capture m' = self_capture m \<and>
         (\<exists>dn. dn \<noteq> d1 \<and> dn \<noteq> d2 \<and> devnull_on dn (m', p'))"
  using assms
  by (auto simp: std_on_def devnull_on_def enter_devnull_def open_devnull_def
        alloc_obj_def new_file_obj_def
        split: prod.splits option.splits sum.splits dest!: os_open_Inr)

text \<open>Redirecting stdout, mode STDERR: stdout goes to the null device.\<close>

lemmas redirect_unfold =
  dup2_stdout_def dup2_stderr_def reopen_stdout_def reopen_stderr_def reopen_stdio_def
  devnull_fileno_def fileno_def alloc_obj_def Let_def

lemma redirect_stdout_STDERR:
  assumes "std_on d1 d2 p" and "devnull_on dn (m, p)" and "self_capture m = STDERR"
    and "redirect_stdout fdw (m, p) = (None, m', p')"
  shows "self_stdout_fd m' = d1 \<and> fdtab p' d1 = Some Null_dev \<and>
         self_capture m' = STDERR \<and> devnull_on dn (m', p') \<and>
         sys_stderr p' < next_ref p' \<and> fileno_of (heap p' (sys_stderr p')) = Some d2"
  using assms
  by (auto simp: redirect_stdout_def redirect_unfold std_on_def devnull_on_def
        split: prod.splits option.splits sum.splits if_splits
        dest!: os_dup_Inr os_dup2_None)


lemma redirect_stderr_STDERR:
  assumes "self_capture m = STDERR" and "sys_stderr p < next_ref p"
    and "fileno_of (heap p (sys_stderr p)) = Some d2" and "d1 \<noteq> d2"
    and "fdtab p d1 = Some Null_dev" and "self_stdout_fd m = d1"
    and "devnull_on dn (m, p)" and "dn \<noteq> d2"
    and "redirect_stderr fdw (m, p) = (None, m', p')"
  shows "self_stdout_fd m' = d1 \<and> fdtab p' d1 = Some Null_dev \<and> self_stderr_fd m' = d2 \<and>
         devnull_on dn (m', p')"
  using assms
  by (auto simp: redirect_stderr_def redirect_unfold devnull_on_def
        split: prod.splits option.splits sum.splits if_splits
        dest!: os_dup_Inr os_dup2_None)

lemma redirect_stdout_STDOUT:
  assumes "std_on d1 d2 p" and "devnull_on dn (m, p)" and "dn \<noteq> d1"
    and "self_capture m = STDOUT"
    and "redirect_stdout fdw (m, p) = (None, m', p')"
  shows "devnull_on dn (m', p') \<and> self_capture m' = STDOUT \<and> self_stdout_fd m' = d1 \<and>
         sys_stderr p' < next_ref p' \<and> fileno_of (heap p' (sys_stderr p')) = Some d2"
  using assms
  by (auto simp: redirect_stdout_def redirect_unfold std_on_def devnull_on_def
        split: prod.splits option.splits sum.splits if_splits
        dest!: os_dup_Inr os_dup2_None)

lemma redirect_stderr_STDOUT:
  assumes "devnull_on dn (m, p)" and "self_capture m = STDOUT"
    and "sys_stderr p < next_ref p" and "fileno_of (heap p (sys_stderr p)) = Some d2"
    and "redirect_stderr fdw (m, p) = (None, m', p')"
  shows "self_stderr_fd m' = d2 \<and> fdtab p' d2 = Some Null_dev \<and>
         self_stdout_fd m' = self_stdout_fd m \<and> devnull_on dn (m', p')"
  using assms
  by (auto simp: redirect_stderr_def redirect_unfold devnull_on_def
        split: prod.splits option.splits sum.splits if_splits
        dest!: os_dup_Inr os_dup2_None)

lemma TemporaryFile_Inr:
  "TemporaryFile p = (Inr tf, p') \<Longrightarrow>
   \<exists>d. fdtab p d = None \<and> tf = next_ref p \<and>
     p' = p\<lparr>fdtab := (fdtab p)(d \<mapsto> Temp_file (next_file p)),
            files := (files p)(next_file p := []), next_file := Suc (next_file p),
            heap := (heap p)(next_ref p := new_file_obj d True),
            next_ref := Suc (next_ref p)\<rparr>"
  by (auto simp: TemporaryFile_def alloc_obj_def split: prod.splits sum.splits dest!: os_open_Inr)

lemma enter_redirect_None:
  assumes "enter_redirect (m, p) = (None, m', p')"
  shows "\<exists>tf fdw p1 w2.
           TemporaryFile p = (Inr tf, p1) \<and>
           redirect_stdout fdw (m\<lparr>self_temp_file := Some tf\<rparr>, p1) = (None, w2) \<and>
           redirect_stderr fdw w2 = (None, m', p')"
  using assms
  by (auto simp: enter_redirect_def Let_def split: prod.splits sum.splits option.splits)

lemma std_on_TemporaryFile:
  "std_on d1 d2 p \<Longrightarrow> TemporaryFile p = (Inr tf, p') \<Longrightarrow> std_on d1 d2 p'"
  by (auto simp: std_on_def dest!: TemporaryFile_Inr)

lemma devnull_on_TemporaryFile:
  "devnull_on dn (m, p) \<Longrightarrow> TemporaryFile p = (Inr tf, p') \<Longrightarrow>
   devnull_on dn (m\<lparr>self_temp_file := Some tf\<rparr>, p')"
  by (auto simp: devnull_on_def split: option.splits dest!: TemporaryFile_Inr)

text \<open>The redirection in the two modes that capture one stream.\<close>

lemma enter_redirect_STDOUT:
  assumes "std_on d1 d2 p" and "devnull_on dn (m, p)" and "dn \<noteq> d1"
    and "self_capture m = STDOUT" and "enter_redirect (m, p) = (None, m', p')"
  shows "self_stderr_fd m' = d2 \<and> fdtab p' d2 = Some Null_dev \<and> self_stdout_fd m' = d1 \<and>
         devnull_on dn (m', p')"
proof -
  from enter_redirect_None [OF assms(5)] obtain tf fdw p1 m2 p2 where
    t: "TemporaryFile p = (Inr tf, p1)" and
    r1: "redirect_stdout fdw (m\<lparr>self_temp_file := Some tf\<rparr>, p1) = (None, m2, p2)" and
    r2: "redirect_stderr fdw (m2, p2) = (None, m', p')"
    by (metis prod.collapse)
  have s1: "std_on d1 d2 p1" using std_on_TemporaryFile [OF assms(1) t] .
  have n1: "devnull_on dn (m\<lparr>self_temp_file := Some tf\<rparr>, p1)"
    using devnull_on_TemporaryFile [OF assms(2) t] .
  have c1: "self_capture (m\<lparr>self_temp_file := Some tf\<rparr>) = STDOUT" using assms(4) by simp
  from redirect_stdout_STDOUT [OF s1 n1 assms(3) c1 r1]
  have n2: "devnull_on dn (m2, p2)" and c2: "self_capture m2 = STDOUT"
    and f2: "self_stdout_fd m2 = d1"
    and e2: "sys_stderr p2 < next_ref p2" "fileno_of (heap p2 (sys_stderr p2)) = Some d2"
    by simp_all
  from redirect_stderr_STDOUT [OF n2 c2 e2 r2] f2 show ?thesis by simp
qed

lemma enter_redirect_STDERR:
  assumes "std_on d1 d2 p" and "devnull_on dn (m, p)" and "dn \<noteq> d2"
    and "self_capture m = STDERR" and "enter_redirect (m, p) = (None, m', p')"
  shows "self_stdout_fd m' = d1 \<and> fdtab p' d1 = Some Null_dev \<and> self_stderr_fd m' = d2 \<and>
         devnull_on dn (m', p')"
proof -
  from enter_redirect_None [OF assms(5)] obtain tf fdw p1 m2 p2 where
    t: "TemporaryFile p = (Inr tf, p1)" and
    r1: "redirect_stdout fdw (m\<lparr>self_temp_file := Some tf\<rparr>, p1) = (None, m2, p2)" and
    r2: "redirect_stderr fdw (m2, p2) = (None, m', p')"
    by (metis prod.collapse)
  have s1: "std_on d1 d2 p1" using std_on_TemporaryFile [OF assms(1) t] .
  have n1: "devnull_on dn (m\<lparr>self_temp_file := Some tf\<rparr>, p1)"
    using devnull_on_TemporaryFile [OF assms(2) t] .
  have c1: "self_capture (m\<lparr>self_temp_file := Some tf\<rparr>) = STDERR" using assms(4) by simp
  have d: "d1 \<noteq> d2" using assms(1) by (simp add: std_on_def)
  from redirect_stdout_STDERR [OF s1 n1 c1 r1]
  have f2: "self_stdout_fd m2 = d1" and t2: "fdtab p2 d1 = Some Null_dev"
    and c2: "self_capture m2 = STDERR" and n2: "devnull_on dn (m2, p2)"
    and e2: "sys_stderr p2 < next_ref p2" "fileno_of (heap p2 (sys_stderr p2)) = Some d2"
    by simp_all
  from redirect_stderr_STDERR [OF c2 e2 d t2 f2 n2 assms(3) r2] show ?thesis .
qed


lemma enter_one_stream:
  assumes "std_on d1 d2 p" and "self_capture m = STDOUT \<or> self_capture m = STDERR"
    and "CaptureManager_enter (m, p) = (None, m', p')"
  shows "self_stdout_fd m' = d1 \<and> self_stderr_fd m' = d2 \<and>
         (\<exists>dn. devnull_on dn (m', p')) \<and>
         fdtab p' (if self_capture m = STDOUT then d2 else d1) = Some Null_dev"
proof -
  have ne: "self_capture m \<noteq> NONE" using assms(2) by auto
  from assms(3) ne
  have "run [flush_stdout, flush_stderr, patch_stdin, enter_devnull, enter_redirect] (m, p) =
          (None, m', p')"
    by (simp add: CaptureManager_enter_def del: run.simps)
  then obtain m1 p1 m2 p2 m3 p3 m4 p4 where
    a: "flush_stdout (m, p) = (None, m1, p1)" and
    b: "flush_stderr (m1, p1) = (None, m2, p2)" and
    c: "patch_stdin (m2, p2) = (None, m3, p3)" and
    d: "enter_devnull (m3, p3) = (None, m4, p4)" and
    e: "enter_redirect (m4, p4) = (None, m', p')"
    by (auto dest!: run_Cons_None simp del: run.simps) (simp split: option.splits prod.splits)
  from std_on_flush_stdout [OF assms(1) a] have s1: "std_on d1 d2 p1" and m1: "m1 = m" by simp_all
  from std_on_flush_stderr [OF s1 b] have s2: "std_on d1 d2 p2" and m2: "m2 = m" using m1 by simp_all
  from std_on_patch_stdin [OF s2 c] have s3: "std_on d1 d2 p3" and c3: "self_capture m3 = self_capture m"
    using m2 by simp_all
  from devnull_on_enter_devnull [OF s3 d] assms(2) c3 obtain dn where
    s4: "std_on d1 d2 p4" and c4: "self_capture m4 = self_capture m" and
    dn: "dn \<noteq> d1" "dn \<noteq> d2" "devnull_on dn (m4, p4)"
    by auto
  show ?thesis
  proof (cases "self_capture m = STDOUT")
    case True
    with c4 have "self_capture m4 = STDOUT" by simp
    from enter_redirect_STDOUT [OF s4 dn(3) dn(1) this e] True show ?thesis by auto
  next
    case False
    with assms(2) c4 have "self_capture m4 = STDERR" by simp
    from enter_redirect_STDERR [OF s4 dn(3) dn(2) this e] False show ?thesis by auto
  qed
qed


lemma enter_devnull_BOTH: "self_capture (fst w) = BOTH \<Longrightarrow> enter_devnull w = (None, w)"
  by (cases w) (simp add: enter_devnull_def)

lemma enter_BOTH_no_devnull:
  assumes "self_capture (fst w) = BOTH" and "self_devnull (fst w) = None"
  shows "self_devnull (fst (snd (CaptureManager_enter w))) = None"
proof -
  let ?I = "\<lambda>v. self_capture (fst v) = BOTH \<and> self_devnull (fst v) = None"
  have "?I (snd (run [flush_stdout, flush_stderr, patch_stdin, enter_devnull, enter_redirect] w))"
    by (rule run_inv [where I = ?I])
       (auto simp: assms session_same keeps_patch_stdin keeps_enter_redirect enter_devnull_BOTH)
  then show ?thesis
    using assms(1) by (simp add: CaptureManager_enter_def del: run.simps)
qed

lemma std_streams_open_std_on:
  "std_streams_open p \<Longrightarrow>
   \<exists>d1 d2. std_on d1 d2 p \<and> fileno_of (heap p (sys_stdout p)) = Some d1 \<and>
     fileno_of (heap p (sys_stderr p)) = Some d2"
  by (auto simp: std_streams_open_def std_on_def split: option.splits)

lemma os_write_Null_dev: "fdtab p d = Some Null_dev \<Longrightarrow> os_write d b p = (None, p)"
  by (simp add: os_write_def)

text \<open>
  Claim C6. In a process whose standard streams are open, after \<open>__enter__\<close> has
  returned: the session holds a handle on the discard device exactly when the mode is
  \<open>STDOUT\<close> or \<open>STDERR\<close>, and then that handle is an open descriptor on the discard
  device; in mode \<open>STDOUT\<close> the descriptor of \<open>sys.stderr\<close>, and in mode \<open>STDERR\<close> the
  descriptor of \<open>sys.stdout\<close>, refers to the discard device, so that writing any
  bytes to it changes nothing in the process: they reach neither a temporary file nor a
  destination.
\<close>

theorem null_sink:
  assumes "std_streams_open p"
    and "raised (CaptureManager_enter (world_of (CaptureManager_init c i p))) = None"
  shows
    "(self_devnull (session_of (CaptureManager_enter (world_of (CaptureManager_init c i p))))
        \<noteq> None \<longleftrightarrow> c = STDOUT \<or> c = STDERR) \<and>
     (c = STDOUT \<or> c = STDERR \<longrightarrow>
        (\<exists>dn. devnull_fileno
                 (session_of (CaptureManager_enter (world_of (CaptureManager_init c i p))))
                 (proc_of (CaptureManager_enter (world_of (CaptureManager_init c i p)))) = Inr dn \<and>
              fdtab (proc_of (CaptureManager_enter (world_of (CaptureManager_init c i p)))) dn =
                Some Null_dev)) \<and>
     (c = STDOUT \<longrightarrow>
        fileno_of (heap p (sys_stderr p)) =
          Some (self_stderr_fd (session_of (CaptureManager_enter (world_of (CaptureManager_init c i p))))) \<and>
        fdtab (proc_of (CaptureManager_enter (world_of (CaptureManager_init c i p))))
          (self_stderr_fd (session_of (CaptureManager_enter (world_of (CaptureManager_init c i p))))) =
          Some Null_dev \<and>
        os_write
          (self_stderr_fd (session_of (CaptureManager_enter (world_of (CaptureManager_init c i p)))))
          b (proc_of (CaptureManager_enter (world_of (CaptureManager_init c i p)))) =
          (None, proc_of (CaptureManager_enter (world_of (CaptureManager_init c i p))))) \<and>
     (c = STDERR \<longrightarrow>
        fileno_of (heap p (sys_stdout p)) =
          Some (self_stdout_fd (session_of (CaptureManager_enter (world_of (CaptureManager_init c i p))))) \<and>
        fdtab (proc_of (CaptureManager_enter (world_of (CaptureManager_init c i p))))
          (self_stdout_fd (session_of (CaptureManager_enter (world_of (CaptureManager_init c i p))))) =
          Some Null_dev \<and>
        os_write
          (self_stdout_fd (session_of (CaptureManager_enter (world_of (CaptureManager_init c i p)))))
          b (proc_of (CaptureManager_enter (world_of (CaptureManager_init c i p)))) =
          (None, proc_of (CaptureManager_enter (world_of (CaptureManager_init c i p)))))"
proof -
  let ?w0 = "world_of (CaptureManager_init c i p)"
  let ?m1 = "session_of (CaptureManager_enter ?w0)"
  let ?p1 = "proc_of (CaptureManager_enter ?w0)"
  obtain m0 where w0: "?w0 = (m0, p)" and c0: "self_capture m0 = c" and n0: "self_devnull m0 = None"
    by (simp add: CaptureManager_init_def world_of_def)
  from assms(2) have en: "CaptureManager_enter (m0, p) = (None, ?m1, ?p1)"
    by (simp add: w0 raised_def session_of_def proc_of_def prod_eq_iff)
  from std_streams_open_std_on [OF assms(1)] obtain d1 d2 where
    s: "std_on d1 d2 p" and f1: "fileno_of (heap p (sys_stdout p)) = Some d1"
    and f2: "fileno_of (heap p (sys_stderr p)) = Some d2"
    by blast
  have m1: "?m1 = fst (snd (CaptureManager_enter (m0, p)))"
    and p1: "?p1 = snd (snd (CaptureManager_enter (m0, p)))"
    unfolding w0 by (simp_all add: session_of_def proc_of_def)
  have one: "self_stdout_fd ?m1 = d1 \<and> self_stderr_fd ?m1 = d2 \<and>
         (\<exists>dn. devnull_on dn (?m1, ?p1)) \<and>
         fdtab ?p1 (if c = STDOUT then d2 else d1) = Some Null_dev"
    if "c = STDOUT \<or> c = STDERR"
  proof -
    have "self_capture m0 = STDOUT \<or> self_capture m0 = STDERR" using that c0 by simp
    from enter_one_stream [OF s this en] c0 show ?thesis by simp
  qed
  have both: "self_devnull ?m1 = None" if "c = BOTH"
  proof -
    have "self_capture (fst (m0, p)) = BOTH" "self_devnull (fst (m0, p)) = None"
      using that c0 n0 by simp_all
    from enter_BOTH_no_devnull [OF this] show ?thesis unfolding m1 .
  qed
  have none: "self_devnull ?m1 = None" if "c = NONE"
  proof -
    have "CaptureManager_enter (m0, p) = (None, m0, p)"
      using that c0 by (simp add: CaptureManager_enter_def)
    then show ?thesis unfolding m1 using n0 by simp
  qed
  have a: "self_devnull ?m1 \<noteq> None \<longleftrightarrow> c = STDOUT \<or> c = STDERR"
    using one both none by (cases c) (auto simp: devnull_on_def split: option.splits)
  have b: "\<exists>dn. devnull_fileno ?m1 ?p1 = Inr dn \<and> fdtab ?p1 dn = Some Null_dev"
    if "c = STDOUT \<or> c = STDERR"
    using one [OF that]
    by (auto simp: devnull_on_def devnull_fileno_def fileno_def split: option.splits)
  have c: "fileno_of (heap p (sys_stderr p)) = Some (self_stderr_fd ?m1) \<and>
      fdtab ?p1 (self_stderr_fd ?m1) = Some Null_dev \<and>
      os_write (self_stderr_fd ?m1) b ?p1 = (None, ?p1)" if "c = STDOUT"
    using one that f2 by (simp add: os_write_Null_dev)
  have d: "fileno_of (heap p (sys_stdout p)) = Some (self_stdout_fd ?m1) \<and>
      fdtab ?p1 (self_stdout_fd ?m1) = Some Null_dev \<and>
      os_write (self_stdout_fd ?m1) b ?p1 = (None, ?p1)" if "c = STDERR"
    using one that f1 by (simp add: os_write_Null_dev)
  from a b c d show ?thesis by blast
qed

theorem null_sink_witness:
  "std_streams_open (proc0 False 16) \<and>
   raised (CaptureManager_enter (world_of (CaptureManager_init STDOUT None (proc0 False 16)))) = None \<and>
   self_devnull (session_of (CaptureManager_enter
     (world_of (CaptureManager_init STDOUT None (proc0 False 16))))) = Some 3 \<and>
   self_stderr_fd (session_of (CaptureManager_enter
     (world_of (CaptureManager_init STDOUT None (proc0 False 16))))) = 2 \<and>
   fdtab (proc_of (CaptureManager_enter
     (world_of (CaptureManager_init STDOUT None (proc0 False 16))))) 2 = Some Null_dev \<and>
   fdtab (proc_of (CaptureManager_enter
     (world_of (CaptureManager_init STDOUT None (proc0 False 16))))) 1 = Some (Temp_file 0) \<and>
   os_write 2 [0x41] (proc_of (CaptureManager_enter
     (world_of (CaptureManager_init STDOUT None (proc0 False 16))))) =
     (None, proc_of (CaptureManager_enter
        (world_of (CaptureManager_init STDOUT None (proc0 False 16))))) \<and>
   std_streams_open (proc0 True 16) \<and>
   raised (CaptureManager_enter (world_of (CaptureManager_init BOTH None (proc0 True 16)))) = None \<and>
   self_devnull (session_of (CaptureManager_enter
     (world_of (CaptureManager_init BOTH None (proc0 True 16))))) = None"
proof -
  let ?e = "CaptureManager_enter (world_of (CaptureManager_init STDOUT None (proc0 False 16)))"
  let ?f = "CaptureManager_enter (world_of (CaptureManager_init BOTH None (proc0 True 16)))"
  have h1: "std_streams_open (proc0 False 16)" by code_simp
  have h2: "raised ?e = None" by code_simp
  have h3: "std_streams_open (proc0 True 16)" by code_simp
  have h4: "raised ?f = None" by code_simp
  have v: "self_devnull (session_of ?e) = Some 3" "self_stderr_fd (session_of ?e) = 2"
    "fdtab (proc_of ?e) 1 = Some (Temp_file 0)"
    by code_simp+
  from null_sink [OF h1 h2, of "[0x41]"] v
  have a: "fdtab (proc_of ?e) 2 = Some Null_dev \<and> os_write 2 [0x41] (proc_of ?e) = (None, proc_of ?e)"
    by simp
  from null_sink [OF h3 h4] have b: "self_devnull (session_of ?f) = None" by simp
  from h1 h2 h3 h4 v a b show ?thesis by blast
qed

section \<open>The input stream\<close>



















































end
